theory Spec2Isabelle
  imports Complex_Main "HOL-Library.Multiset"
begin

section \<open>Values, cells and tables\<close>

text \<open>
  The export processor (pipeline/gee_export_processor.py) works on pandas tables.
  A float is NaN, a finite number or one of the two infinities.  A finite result is
  exact unless it overflows: the rounding error of binary floating point and the sign of
  zero are outside the model, while NaN, the infinities and the overflow to an infinity,
  which decide the guards of the code, follow IEEE 754.  NaN is also the marker pandas
  uses for a missing entry, in numeric and in text columns alike.  A column is numeric
  or holds text; boolean and date columns are outside the model.
\<close>

datatype pyfloat = NaN | Fin rat | PInf | NInf

datatype cell = Num pyfloat | Str string

datatype dtype = Numeric | Object

text \<open>
  A table is its header (column names with the dtype pandas inferred, in file order) and
  its rows.  A row gives the cell of every column; the cells of names outside the header
  are never read.
\<close>

type_synonym row = "string \<Rightarrow> cell"

record table =
  columns :: "(string \<times> dtype) list"
  rows :: "row list"

definition column_names :: "table \<Rightarrow> string list" where
  "column_names df = map fst (columns df)"

definition isnull :: "cell \<Rightarrow> bool" where
  "isnull c = (c = Num NaN)"

text \<open>Elementwise \<open>==\<close> of pandas: NaN equals nothing, itself included.\<close>

definition cell_eq :: "cell \<Rightarrow> cell \<Rightarrow> bool" where
  "cell_eq a b = (a = b \<and> \<not> isnull a)"

text \<open>\<open>Series.unique()\<close>: the distinct values in order of first appearance.\<close>

definition unique :: "'a list \<Rightarrow> 'a list" where
  "unique xs = rev (remdups (rev xs))"

subsection \<open>Strings\<close>

text \<open>\<open>needle in hay\<close> of Python.\<close>

fun starts_with :: "string \<Rightarrow> string \<Rightarrow> bool" where
  "starts_with hay [] = True"
| "starts_with [] (c # cs) = False"
| "starts_with (h # hs) (c # cs) = (h = c \<and> starts_with hs cs)"

fun str_in :: "string \<Rightarrow> string \<Rightarrow> bool" where
  "str_in needle [] = (needle = [])"
| "str_in needle (h # hs) = (starts_with (h # hs) needle \<or> str_in needle hs)"

text \<open>\<open>str.lower()\<close> on ASCII letters; other characters are left as they are.\<close>

definition lower_char :: "char \<Rightarrow> char" where
  "lower_char c =
     (let n = (of_char c :: nat) in if 65 \<le> n \<and> n \<le> 90 then char_of (n + 32) else c)"

definition lower :: "string \<Rightarrow> string" where
  "lower s = map lower_char s"

text \<open>Decimal rendering of integers, as \<open>str(n)\<close> and the format \<open>02d\<close> give it.\<close>

definition digit_char :: "nat \<Rightarrow> char" where
  "digit_char d = char_of (48 + d)"

fun str_of_nat :: "nat \<Rightarrow> string" where
  "str_of_nat n = (if n < 10 then [digit_char n] else str_of_nat (n div 10) @ [digit_char (n mod 10)])"

definition str_of_int :: "int \<Rightarrow> string" where
  "str_of_int i = (if i < 0 then CHR ''-'' # str_of_nat (nat (- i)) else str_of_nat (nat i))"

definition fmt_02d :: "int \<Rightarrow> string" where
  "fmt_02d i = (if 0 \<le> i \<and> i < 10 then CHR ''0'' # str_of_int i else str_of_int i)"

subsection \<open>Float arithmetic\<close>

text \<open>
  The result of an operation on finite doubles: the exact value, or the infinity of its
  sign when the value reaches the bound at which round-to-nearest overflows.
\<close>

definition overflow_bound :: rat where
  "overflow_bound = 2 ^ 1024 - 2 ^ 970"

definition fin_result :: "rat \<Rightarrow> pyfloat" where
  "fin_result x =
     (if overflow_bound \<le> x then PInf else if x \<le> - overflow_bound then NInf else Fin x)"

text \<open>NaN propagates through arithmetic; every ordering comparison with NaN is false.\<close>

fun fl_neg :: "pyfloat \<Rightarrow> pyfloat" where
  "fl_neg NaN = NaN"
| "fl_neg (Fin x) = Fin (- x)"
| "fl_neg PInf = NInf"
| "fl_neg NInf = PInf"

fun fl_add :: "pyfloat \<Rightarrow> pyfloat \<Rightarrow> pyfloat" where
  "fl_add NaN b = NaN"
| "fl_add a NaN = NaN"
| "fl_add (Fin x) (Fin y) = fin_result (x + y)"
| "fl_add PInf NInf = NaN"
| "fl_add NInf PInf = NaN"
| "fl_add PInf b = PInf"
| "fl_add a PInf = PInf"
| "fl_add NInf b = NInf"
| "fl_add a NInf = NInf"

definition fl_sub :: "pyfloat \<Rightarrow> pyfloat \<Rightarrow> pyfloat" where
  "fl_sub a b = fl_add a (fl_neg b)"

fun fl_mul :: "pyfloat \<Rightarrow> pyfloat \<Rightarrow> pyfloat" where
  "fl_mul NaN b = NaN"
| "fl_mul a NaN = NaN"
| "fl_mul (Fin x) (Fin y) = fin_result (x * y)"
| "fl_mul (Fin x) b = (if x = 0 then NaN else if 0 < x then b else fl_neg b)"
| "fl_mul a (Fin y) = (if y = 0 then NaN else if 0 < y then a else fl_neg a)"
| "fl_mul a b = (if a = b then PInf else NInf)"

text \<open>
  Division by zero gives an infinity or NaN, as numpy scalars do; the code divides only
  behind the guard \<open>b_val != 0\<close>.
\<close>

fun fl_div :: "pyfloat \<Rightarrow> pyfloat \<Rightarrow> pyfloat" where
  "fl_div NaN b = NaN"
| "fl_div a NaN = NaN"
| "fl_div (Fin x) (Fin y) =
     (if y = 0 then (if x = 0 then NaN else if 0 < x then PInf else NInf)
      else fin_result (x / y))"
| "fl_div (Fin x) b = Fin 0"
| "fl_div a (Fin y) = (if 0 \<le> y then a else fl_neg a)"
| "fl_div a b = NaN"

fun fl_abs :: "pyfloat \<Rightarrow> pyfloat" where
  "fl_abs NaN = NaN"
| "fl_abs (Fin x) = Fin \<bar>x\<bar>"
| "fl_abs PInf = PInf"
| "fl_abs NInf = PInf"

fun fl_le :: "pyfloat \<Rightarrow> pyfloat \<Rightarrow> bool" where
  "fl_le NaN b = False"
| "fl_le a NaN = False"
| "fl_le (Fin x) (Fin y) = (x \<le> y)"
| "fl_le NInf b = True"
| "fl_le a PInf = True"
| "fl_le a b = False"

definition fl_gt :: "pyfloat \<Rightarrow> pyfloat \<Rightarrow> bool" where
  "fl_gt a b = (a \<noteq> NaN \<and> b \<noteq> NaN \<and> \<not> fl_le a b)"

definition isnan :: "pyfloat \<Rightarrow> bool" where
  "isnan a = (a = NaN)"

text \<open>Rounding to the nearest integer, ties to the even one.\<close>

definition rint :: "rat \<Rightarrow> int" where
  "rint y =
     (let f = \<lfloor>y\<rfloor>; d = y - of_int f
      in if d < 1 / 2 then f else if 1 / 2 < d then f + 1 else if even f then f else f + 1)"

text \<open>
  \<open>round(x, ndigits)\<close> on a numpy float, as every float that the code rounds is: the
  value is scaled by the power of ten, rounded to the nearest integer and scaled back.
  The scaled value overflows as a product does; NaN and the infinities stay as they are.
\<close>

definition round_rat :: "rat \<Rightarrow> nat \<Rightarrow> rat" where
  "round_rat x nd = of_int (rint (x * 10 ^ nd)) / 10 ^ nd"

definition py_round :: "pyfloat \<Rightarrow> nat \<Rightarrow> pyfloat" where
  "py_round a nd =
     (case a of
        Fin x \<Rightarrow> (case fin_result (x * 10 ^ nd) of Fin y \<Rightarrow> Fin (round_rat x nd) | v \<Rightarrow> v)
      | _ \<Rightarrow> a)"

text \<open>
  The mean of the entries that are not NaN, NaN when there is none: the sum from left to
  right, divided by the count.  The sum is infinite when an entry is or when it
  overflows, and NaN when infinities of both signs meet.  This is \<open>mean()\<close> on the 0/1
  values of the null-rate check, and one instance of \<open>Series.mean()\<close> on a measurement
  column, whose float summation is left open below.
\<close>

definition mean :: "pyfloat list \<Rightarrow> pyfloat" where
  "mean xs =
     (let vs = filter (\<lambda>a. a \<noteq> NaN) xs
      in if vs = [] then NaN else fl_div (foldl fl_add (Fin 0) vs) (Fin (of_nat (length vs))))"

text \<open>The format \<open>.1f\<close>, which is also how a float rounded to one decimal prints.\<close>

definition fmt_1f :: "rat \<Rightarrow> string" where
  "fmt_1f x =
     (let t = rint (x * 10); m = nat \<bar>t\<bar>
      in (if t < 0 then ''-'' else '''') @ str_of_nat (m div 10) @ ''.'' @ [digit_char (m mod 10)])"

fun fmt_float_1f :: "pyfloat \<Rightarrow> string" where
  "fmt_float_1f NaN = ''nan''"
| "fmt_float_1f (Fin x) = fmt_1f x"
| "fmt_float_1f PInf = ''inf''"
| "fmt_float_1f NInf = ''-inf''"

text \<open>\<open>int(x)\<close>: truncation towards zero.\<close>

definition trunc :: "rat \<Rightarrow> int" where
  "trunc x = (if 0 \<le> x then \<lfloor>x\<rfloor> else \<lceil>x\<rceil>)"

section \<open>Data ingestion\<close>

text \<open>
  Python prints a set of strings in an order that depends on the hash seed of the
  process.  The order is an input of the run: a function from the set to the list of its
  elements, the same for every set the process prints.
\<close>

type_synonym set_order = "string set \<Rightarrow> string list"

text \<open>
  Every exception the run can raise is a value.  \<open>MissingRequiredColumns\<close> is the
  \<open>ValueError\<close> of \<open>load_gee_export\<close>, carrying the missing columns in the order in
  which its message prints their set;
  \<open>IntCastError\<close> is the failure of \<open>astype(int)\<close> on the named column;
  \<open>IndicatorNotText\<close> is the failure of \<open>.str.contains\<close> and of the mask built from it
  when the indicator column has an entry that is not text; \<open>FireValueNotNumeric\<close> is the
  \<open>TypeError\<close> of comparing text with \<open>0\<close>, and \<open>FireValueInfinite\<close> the
  \<open>OverflowError\<close> of \<open>int()\<close> on an infinite value.
\<close>

datatype error =
    MissingRequiredColumns "string list"
  | IntCastError string
  | IndicatorNotText
  | FireValueNotNumeric
  | FireValueInfinite

text \<open>Log records of level WARNING and above, with their message.\<close>

datatype log_record = LogWarning string | LogError string

definition required_cols :: "string set" where
  "required_cols = {''zone'', ''indicator'', ''year'', ''month''}"

text \<open>
  \<open>astype(int)\<close> on one column: a finite number is truncated, NaN and the infinities
  cannot be cast, and text is left in a column by the CSV reader only when some entry is
  not a number, so the cast of a text entry fails.
\<close>

definition int_of_cell :: "cell \<Rightarrow> int option" where
  "int_of_cell c =
     (case c of
        Num v \<Rightarrow> (case v of Fin x \<Rightarrow> Some (trunc x) | _ \<Rightarrow> None)
      | Str s \<Rightarrow> None)"

fun cast_rows :: "string \<Rightarrow> row list \<Rightarrow> error + row list" where
  "cast_rows c [] = Inr []"
| "cast_rows c (r # rs) =
     (case int_of_cell (r c) of
        None \<Rightarrow> Inl (IntCastError c)
      | Some i \<Rightarrow>
          (case cast_rows c rs of
             Inl e \<Rightarrow> Inl e
           | Inr rs' \<Rightarrow> Inr (r(c := Num (Fin (of_int i))) # rs')))"

definition astype_int :: "string \<Rightarrow> table \<Rightarrow> error + table" where
  "astype_int c df =
     (case cast_rows c (rows df) of
        Inl e \<Rightarrow> Inl e
      | Inr rs \<Rightarrow>
          Inr (df\<lparr>columns := map (\<lambda>(n, t). if n = c then (n, Numeric) else (n, t)) (columns df),
                  rows := rs\<rparr>))"

text \<open>
  \<open>load_gee_export\<close>, from the table that \<open>pd.read_csv\<close> returned for the file.
\<close>

definition load_gee_export :: "set_order \<Rightarrow> table \<Rightarrow> error + table" where
  "load_gee_export ord df =
     (let missing = required_cols - set (column_names df)
      in if missing \<noteq> {} then Inl (MissingRequiredColumns (ord missing))
         else (case astype_int ''year'' df of
                 Inl e \<Rightarrow> Inl e
               | Inr df1 \<Rightarrow> astype_int ''month'' df1))"

text \<open>
  The exports directory is a partial map from file names to parsed tables.  The loaded
  datasets are a dict in insertion order: an association list.
\<close>

type_synonym exports_dir = "string \<rightharpoonup> table"
type_synonym datasets = "(string \<times> table) list"

definition patterns :: "int \<Rightarrow> int \<Rightarrow> (string \<times> string) list" where
  "patterns year month =
     (let month_str = str_of_int year @ ''_'' @ fmt_02d month
      in [(''ndvi_evi'', ''ndvi_evi_'' @ month_str @ ''.csv''),
          (''fire'', ''fire_burn_'' @ month_str @ ''.csv''),
          (''water'', ''water_ndwi_'' @ month_str @ ''.csv''),
          (''climate'', ''climate_'' @ month_str @ ''.csv'')])"

fun load_loop ::
  "set_order \<Rightarrow> exports_dir \<Rightarrow> (string \<times> string) list \<Rightarrow> datasets \<Rightarrow> log_record list
     \<Rightarrow> error + (datasets \<times> log_record list)" where
  "load_loop ord fs [] ds lg = Inr (ds, lg)"
| "load_loop ord fs ((key, filename) # ps) ds lg =
     (case fs filename of
        Some raw \<Rightarrow>
          (case load_gee_export ord raw of
             Inl e \<Rightarrow> Inl e
           | Inr df \<Rightarrow> load_loop ord fs ps (ds @ [(key, df)]) lg)
      | None \<Rightarrow> load_loop ord fs ps ds (lg @ [LogWarning (''  Missing export: '' @ filename)]))"

definition load_monthly_exports ::
  "set_order \<Rightarrow> exports_dir \<Rightarrow> int \<Rightarrow> int \<Rightarrow> error + (datasets \<times> log_record list)" where
  "load_monthly_exports ord fs year month = load_loop ord fs (patterns year month) [] []"

section \<open>Data quality checks\<close>

datatype status = PASS | WARNING

text \<open>
  The note of a check is one of two messages: \<open>HighNullRate p\<close> stands for
  "High null rate (p%) - likely cloud cover" and \<open>MissingZones zs\<close> for
  "Missing zones: " followed by the printed set, whose elements are \<open>zs\<close> in the order
  of printing.
\<close>

datatype check_note = HighNullRate pyfloat | MissingZones "string list"

record check =
  dataset :: string
  records :: nat
  null_pct :: pyfloat
  zones_present :: "cell list"
  status :: status
  chk_note :: "check_note option"

record quality =
  timestamp :: string
  checks :: "check list"
  overall_status :: status

definition ZONE_NAMES :: "(string \<times> string) list" where
  "ZONE_NAMES =
     [(''zone_1'', ''Usangu GR''), (''zone_1_ihefu'', ''Ihefu Core''), (''zone_2'', ''Nyerere NP'')]"

text \<open>\<open>df.isnull().mean()\<close> for one column: the mean of the booleans as 0 and 1.\<close>

definition null_fraction :: "row list \<Rightarrow> string \<Rightarrow> pyfloat" where
  "null_fraction rs c = mean (map (\<lambda>r. Fin (if isnull (r c) then 1 else 0)) rs)"

definition null_pct_of :: "table \<Rightarrow> pyfloat" where
  "null_pct_of df =
     py_round (fl_mul (mean (map (null_fraction (rows df)) (column_names df))) (Fin 100)) 1"

definition flag_high_null_rate :: "check \<Rightarrow> check" where
  "flag_high_null_rate chk =
     (if fl_gt (null_pct chk) (Fin 30)
      then chk\<lparr>status := WARNING, chk_note := Some (HighNullRate (null_pct chk))\<rparr>
      else chk)"

definition missing_zones_of :: "check \<Rightarrow> string set" where
  "missing_zones_of chk =
     (let expected_zones = set (map snd ZONE_NAMES);
          present_zones = set (zones_present chk)
      in {z \<in> expected_zones. Str z \<notin> present_zones})"

definition flag_missing_zones :: "set_order \<Rightarrow> check \<Rightarrow> check" where
  "flag_missing_zones ord chk =
     (let missing_zones = missing_zones_of chk
      in if missing_zones \<noteq> {}
         then chk\<lparr>status := WARNING, chk_note := Some (MissingZones (ord missing_zones))\<rparr>
         else chk)"

definition quality_check :: "set_order \<Rightarrow> string \<Rightarrow> table \<Rightarrow> check" where
  "quality_check ord key df =
     flag_missing_zones ord (flag_high_null_rate
       \<lparr>dataset = key,
        records = length (rows df),
        null_pct = null_pct_of df,
        zones_present = unique (map (\<lambda>r. r ''zone'') (rows df)),
        status = PASS,
        chk_note = None\<rparr>)"

fun validate_loop :: "set_order \<Rightarrow> datasets \<Rightarrow> quality \<Rightarrow> quality" where
  "validate_loop ord [] q = q"
| "validate_loop ord ((key, df) # ds) q =
     (let chk = quality_check ord key df;
          q1 = q\<lparr>checks := checks q @ [chk]\<rparr>
      in validate_loop ord ds
           (if status chk \<noteq> PASS then q1\<lparr>overall_status := WARNING\<rparr> else q1))"

text \<open>The clock is an input: \<open>now\<close> is what \<open>datetime.now(timezone.utc).isoformat()\<close> returns.\<close>

definition validate_data_quality :: "set_order \<Rightarrow> string \<Rightarrow> datasets \<Rightarrow> quality" where
  "validate_data_quality ord now ds =
     validate_loop ord ds \<lparr>timestamp = now, checks = [], overall_status = PASS\<rparr>"

section \<open>Indicator computation\<close>

text \<open>
  One record of \<open>results\<close>.  \<open>deviation_pct = None\<close> is Python's \<open>None\<close>;
  \<open>d_current\<close> and \<open>d_baseline\<close> are floats and may be NaN.  The DataFrame that
  \<open>compute_deviations\<close> builds from \<open>results\<close> is the list of these records: pandas
  keeps a \<open>None\<close> there as NaN when the column holds floats, and every test that
  \<open>detect_alerts\<close> makes on \<open>deviation_pct\<close> has the same outcome for both (no alert).
\<close>

record deviation =
  d_zone :: cell
  d_indicator :: string
  d_current :: pyfloat
  d_baseline :: pyfloat
  deviation_pct :: "pyfloat option"

text \<open>\<open>Series.str.contains(pat, case=False)\<close> on one entry of the indicator column.\<close>

definition indicator_contains :: "string \<Rightarrow> row \<Rightarrow> bool" where
  "indicator_contains pat r =
     (case r ''indicator'' of Str s \<Rightarrow> str_in (lower pat) (lower s) | Num v \<Rightarrow> False)"

definition is_text :: "cell \<Rightarrow> bool" where
  "is_text c = (case c of Str s \<Rightarrow> True | Num v \<Rightarrow> False)"

text \<open>\<open>select_dtypes(include=[np.number]).columns\<close>; selecting rows keeps the dtypes.\<close>

definition numeric_columns :: "table \<Rightarrow> string list" where
  "numeric_columns df = map fst (filter (\<lambda>(c, t). t = Numeric) (columns df))"

text \<open>The entries of a numeric column; such a column holds no text.\<close>

definition col_vals :: "row list \<Rightarrow> string \<Rightarrow> pyfloat list" where
  "col_vals rs c = map (\<lambda>r. case r c of Num v \<Rightarrow> v | Str s \<Rightarrow> NaN) rs"

text \<open>
  \<open>Series.mean()\<close> on a measurement column is a function of the pandas library: the
  order of its float summation, its rounding and its overflow to an infinity are not
  fixed here.  It is a parameter, \<open>series_mean\<close>, from the entries of the column to the
  float it returns.
\<close>

type_synonym series_mean = "pyfloat list \<Rightarrow> pyfloat"

definition deviation_record ::
  "series_mean \<Rightarrow> cell \<Rightarrow> string \<Rightarrow> row list \<Rightarrow> row list \<Rightarrow> deviation" where
  "deviation_record sm zone col z_current z_baseline =
     (let c_val = sm (col_vals z_current col);
          b_val = sm (col_vals z_baseline col);
          dev_pct = (if b_val \<noteq> Fin 0 \<and> \<not> isnan b_val
                     then fl_mul (fl_div (fl_sub c_val b_val) (fl_abs b_val)) (Fin 100)
                     else NaN)
      in \<lparr>d_zone = zone,
          d_indicator = col,
          d_current = py_round c_val 4,
          d_baseline = py_round b_val 4,
          deviation_pct = (if \<not> isnan dev_pct then Some (py_round dev_pct 1) else None)\<rparr>)"

text \<open>The rows labelled current and baseline, and the rows of one zone among them.\<close>

definition current_rows :: "table \<Rightarrow> row list" where
  "current_rows df = filter (indicator_contains ''current'') (rows df)"

definition baseline_rows :: "table \<Rightarrow> row list" where
  "baseline_rows df = filter (indicator_contains ''baseline'') (rows df)"

definition zone_rows :: "cell \<Rightarrow> row list \<Rightarrow> row list" where
  "zone_rows zone rs = filter (\<lambda>r. cell_eq (r ''zone'') zone) rs"

text \<open>The body of the loop over zones.\<close>

definition zone_deviations :: "series_mean \<Rightarrow> table \<Rightarrow> cell \<Rightarrow> deviation list" where
  "zone_deviations sm df zone =
     (let z_current = zone_rows zone (current_rows df);
          z_baseline = zone_rows zone (baseline_rows df)
      in if List.null z_current \<or> List.null z_baseline then []
         else concat (map (\<lambda>col. if col \<in> {''year'', ''month''} then []
                                  else [deviation_record sm zone col z_current z_baseline])
                          (numeric_columns df)))"

definition compute_deviations :: "series_mean \<Rightarrow> table \<Rightarrow> error + deviation list" where
  "compute_deviations sm df =
     (if \<not> list_all (\<lambda>r. is_text (r ''indicator'')) (rows df) then Inl IndicatorNotText
      else Inr (concat (map (zone_deviations sm df)
                            (unique (map (\<lambda>r. r ''zone'') (rows df))))))"

section \<open>Alert detection\<close>

datatype severity = HIGH | MODERATE

text \<open>
  An alert is a dict whose keys depend on the rule that made it: a field that is
  \<open>None\<close> here is a key the dict does not have.  The key \<open>escalation\<close> is either
  absent (\<open>NoKey\<close>), present with the value \<open>None\<close> (\<open>Null\<close>), or a text.
\<close>

datatype escalation = NoKey | Null | Note string

record alert =
  a_zone :: cell
  a_indicator :: string
  a_severity :: severity
  a_deviation_pct :: "pyfloat option"
  a_current :: "pyfloat option"
  a_baseline :: "pyfloat option"
  a_detail :: "string option"
  a_escalation :: escalation

text \<open>
  \<open>ZONES_CONFIG["alert_thresholds"]\<close> is read from config/zones.json, which is not part
  of the sources: the two thresholds are parameters.
\<close>

record thresholds =
  ndvi_evi_high :: rat
  ndvi_evi_moderate :: rat

text \<open>The threshold test of the NDVI/EVI rule; \<open>None\<close> is the \<open>continue\<close>.\<close>

definition base_severity :: "thresholds \<Rightarrow> pyfloat \<Rightarrow> severity option" where
  "base_severity th dev =
     (if fl_le dev (Fin (ndvi_evi_high th)) then Some HIGH
      else if fl_le dev (Fin (ndvi_evi_moderate th)) then Some MODERATE
      else None)"

text \<open>The Ihefu Core escalation rule.\<close>

definition escalate :: "cell \<Rightarrow> severity \<Rightarrow> severity \<times> escalation" where
  "escalate zone sev =
     (if zone = Str ''Ihefu Core'' \<and> sev = MODERATE
      then (HIGH, Note ''Escalated: MODERATE in Ihefu Core -> HIGH'')
      else (sev, Null))"

text \<open>The dict appended by the NDVI/EVI rule.\<close>

definition ndvi_evi_record ::
  "deviation \<Rightarrow> cell \<Rightarrow> string \<Rightarrow> severity \<Rightarrow> pyfloat \<Rightarrow> escalation \<Rightarrow> alert" where
  "ndvi_evi_record row zone indicator_label sev dev esc =
     \<lparr>a_zone = zone, a_indicator = indicator_label, a_severity = sev,
      a_deviation_pct = Some dev, a_current = Some (d_current row),
      a_baseline = Some (d_baseline row), a_detail = None, a_escalation = esc\<rparr>"

text \<open>The body of the first loop of \<open>detect_alerts\<close>, for one deviation record.\<close>

definition ndvi_evi_alert :: "thresholds \<Rightarrow> deviation \<Rightarrow> alert list" where
  "ndvi_evi_alert th row =
     (let indicator = d_indicator row;
          is_ndvi = (str_in ''NDVI'' indicator \<and> \<not> str_in ''stdDev'' indicator);
          is_evi = (str_in ''EVI'' indicator \<and> \<not> str_in ''stdDev'' indicator)
      in (case deviation_pct row of
            None \<Rightarrow> []
          | Some dev \<Rightarrow>
              if \<not> (is_ndvi \<or> is_evi) then []
              else
                (let zone = d_zone row;
                     indicator_label = (if is_ndvi then ''NDVI'' else ''EVI'')
                 in (case base_severity th dev of
                       None \<Rightarrow> []
                     | Some sev \<Rightarrow>
                         (case escalate zone sev of
                            (sev', esc) \<Rightarrow>
                              [ndvi_evi_record row zone indicator_label sev' dev esc])))))"

text \<open>The fire loop: the columns of a row whose name matches, then the rows.\<close>

definition fire_count_cols :: "table \<Rightarrow> string list" where
  "fire_count_cols df =
     filter (\<lambda>c. str_in ''count'' (lower c) \<or> str_in ''T21'' c) (column_names df)"

definition fire_alert :: "row \<Rightarrow> rat \<Rightarrow> alert" where
  "fire_alert r v =
     \<lparr>a_zone = r ''zone'', a_indicator = ''Active Fire'', a_severity = HIGH,
      a_deviation_pct = None, a_current = None, a_baseline = None,
      a_detail = Some (''Fire detections: '' @ str_of_int (trunc v)),
      a_escalation = Null\<rparr>"

text \<open>
  One column of one row: text cannot be compared with \<open>0\<close>, NaN is skipped by
  \<open>pd.notna\<close>, a positive infinity passes both tests and fails in \<open>int()\<close>, a negative
  infinity is not positive.
\<close>

fun fire_row_alerts :: "row \<Rightarrow> string list \<Rightarrow> error + alert list" where
  "fire_row_alerts r [] = Inr []"
| "fire_row_alerts r (col # cols) =
     (case r col of
        Str s \<Rightarrow> Inl FireValueNotNumeric
      | Num NaN \<Rightarrow> fire_row_alerts r cols
      | Num PInf \<Rightarrow> Inl FireValueInfinite
      | Num NInf \<Rightarrow> fire_row_alerts r cols
      | Num (Fin v) \<Rightarrow>
          (case fire_row_alerts r cols of
             Inl e \<Rightarrow> Inl e
           | Inr as \<Rightarrow> Inr ((if 0 < v then [fire_alert r v] else []) @ as)))"

fun fire_rows_alerts :: "string list \<Rightarrow> row list \<Rightarrow> error + alert list" where
  "fire_rows_alerts cols [] = Inr []"
| "fire_rows_alerts cols (r # rs) =
     (case fire_row_alerts r cols of
        Inl e \<Rightarrow> Inl e
      | Inr as \<Rightarrow>
          (case fire_rows_alerts cols rs of
             Inl e \<Rightarrow> Inl e
           | Inr bs \<Rightarrow> Inr (as @ bs)))"

definition fire_alerts :: "datasets \<Rightarrow> error + alert list" where
  "fire_alerts ds =
     (case map_of ds ''fire'' of
        None \<Rightarrow> Inr []
      | Some fire_df \<Rightarrow> fire_rows_alerts (fire_count_cols fire_df) (rows fire_df))"

text \<open>The body of the climate loop, for one deviation record: rainfall, then LST.\<close>

definition rainfall_record :: "deviation \<Rightarrow> pyfloat \<Rightarrow> alert" where
  "rainfall_record row dev =
     \<lparr>a_zone = d_zone row, a_indicator = ''Rainfall Deficit'', a_severity = HIGH,
      a_deviation_pct = Some dev, a_current = None, a_baseline = None,
      a_detail = Some (''Drought watch '' @ [CHR 0xE2, CHR 0x80, CHR 0x94]
                       @ '' >40% deficit vs 30-yr mean''),
      a_escalation = NoKey\<rparr>"

definition rainfall_alert :: "deviation \<Rightarrow> alert list" where
  "rainfall_alert row =
     (case deviation_pct row of
        None \<Rightarrow> []
      | Some dev \<Rightarrow>
          if str_in ''rainfall'' (lower (d_indicator row)) \<and> fl_le dev (Fin (- 40))
          then [rainfall_record row dev]
          else [])"

definition lst_record :: "deviation \<Rightarrow> pyfloat \<Rightarrow> alert" where
  "lst_record row anomaly =
     \<lparr>a_zone = d_zone row, a_indicator = ''Land Surface Temperature'', a_severity = MODERATE,
      a_deviation_pct = None, a_current = None, a_baseline = None,
      a_detail = Some (''LST anomaly: +'' @ fmt_float_1f anomaly @ [CHR 0xC2, CHR 0xB0]
                       @ ''C above baseline''),
      a_escalation = NoKey\<rparr>"

definition lst_alert :: "deviation \<Rightarrow> alert list" where
  "lst_alert row =
     (if str_in ''LST'' (d_indicator row) then
        (let anomaly = fl_sub (d_current row) (d_baseline row)
         in if fl_gt anomaly (Fin 3) then [lst_record row anomaly] else [])
      else [])"

definition climate_alerts :: "deviation \<Rightarrow> alert list" where
  "climate_alerts row = rainfall_alert row @ lst_alert row"

definition detect_alerts :: "thresholds \<Rightarrow> datasets \<Rightarrow> deviation list \<Rightarrow> error + alert list" where
  "detect_alerts th ds deviations =
     (case fire_alerts ds of
        Inl e \<Rightarrow> Inl e
      | Inr fire \<Rightarrow>
          Inr (concat (map (ndvi_evi_alert th) deviations)
               @ fire
               @ concat (map climate_alerts deviations)))"

section \<open>Structured output\<close>

record metadata =
  report_period :: string
  generated_at :: string
  prepared_by :: string
  organisation :: string
  boundary_status :: string
  crs_analysis :: string

record document =
  doc_metadata :: metadata
  data_quality :: quality
  doc_deviations :: "deviation list"
  doc_alerts :: "alert list"
  raw_datasets :: datasets

text \<open>
  What a run leaves behind when it does not raise: the value it returns (\<open>None\<close> when no
  dataset was found), the file it wrote, and its log records of level WARNING and above.
\<close>

record outcome =
  returned :: "document option"
  written :: "(string \<times> document) option"
  logged :: "log_record list"

text \<open>The deviations of one category, appended when the category was loaded.\<close>

definition deviations_of :: "series_mean \<Rightarrow> datasets \<Rightarrow> string \<Rightarrow> error + deviation list" where
  "deviations_of sm ds key =
     (case map_of ds key of None \<Rightarrow> Inr [] | Some df \<Rightarrow> compute_deviations sm df)"

text \<open>
  \<open>compile_monthly_dataset\<close>.  Besides the period it depends on the library mean
  (\<open>sm\<close>), on the order in which the process prints a set (\<open>ord\<close>), on the configured
  thresholds, on the exports directory and on the clock, which is read twice: by the
  quality check (\<open>now_quality\<close>) and for the metadata (\<open>now_output\<close>).
\<close>

definition compile_monthly_dataset ::
  "series_mean \<Rightarrow> set_order \<Rightarrow> thresholds \<Rightarrow> exports_dir \<Rightarrow> string \<Rightarrow> string \<Rightarrow> int \<Rightarrow> int
     \<Rightarrow> error + outcome" where
  "compile_monthly_dataset sm ord th fs now_quality now_output year month =
     (case load_monthly_exports ord fs year month of
        Inl e \<Rightarrow> Inl e
      | Inr (ds, lg) \<Rightarrow>
          if List.null ds
          then Inr \<lparr>returned = None, written = None,
                    logged = lg @ [LogError ''No datasets found for this period'']\<rparr>
          else
            (let quality = validate_data_quality ord now_quality ds
             in (case deviations_of sm ds ''ndvi_evi'' of
                   Inl e \<Rightarrow> Inl e
                 | Inr dev1 \<Rightarrow>
                     (case deviations_of sm ds ''climate'' of
                        Inl e \<Rightarrow> Inl e
                      | Inr dev2 \<Rightarrow>
                          (let deviations = dev1 @ dev2
                           in (case detect_alerts th ds deviations of
                                 Inl e \<Rightarrow> Inl e
                               | Inr alerts \<Rightarrow>
                                   (let output =
                                          \<lparr>doc_metadata =
                                             \<lparr>report_period =
                                                str_of_int year @ ''-'' @ fmt_02d month,
                                              generated_at = now_output,
                                              prepared_by = ''Ernest Moyo / 7Square Inc.'',
                                              organisation = ''Six Rivers Africa'',
                                              boundary_status = ''PLACEHOLDER'',
                                              crs_analysis = ''EPSG:32736''\<rparr>,
                                           data_quality = quality,
                                           doc_deviations = deviations,
                                           doc_alerts = alerts,
                                           raw_datasets = ds\<rparr>;
                                        output_path =
                                          ''monthly_dataset_'' @ str_of_int year @ ''_''
                                          @ fmt_02d month @ ''.json''
                                    in Inr \<lparr>returned = Some output,
                                            written = Some (output_path, output),
                                            logged = lg\<rparr>)))))))"

section \<open>Reference definitions and example inputs\<close>

text \<open>
  The definitions that the properties below are stated with, and the concrete tables,
  export directories and records they are evaluated on.
\<close>

text \<open>A row given by the cells of its columns.\<close>

definition mk_row :: "(string \<times> cell) list \<Rightarrow> row" where
  "mk_row kvs = (\<lambda>c. case map_of kvs c of Some v \<Rightarrow> v | None \<Rightarrow> Num NaN)"

text \<open>
  One row of one zone, with the four required columns filled and four measurement columns
  empty: half of the entries are null.
\<close>

definition half_null_table :: table where
  "half_null_table =
     \<lparr>columns = [(''zone'', Object), (''indicator'', Object), (''year'', Numeric),
                 (''month'', Numeric), (''NDVI'', Numeric), (''EVI'', Numeric),
                 (''NDVI_stdDev'', Numeric), (''EVI_stdDev'', Numeric)],
      rows = [mk_row [(''zone'', Str ''Usangu GR''), (''indicator'', Str ''NDVI_current''),
                      (''year'', Num (Fin 2024)), (''month'', Num (Fin 1))]]\<rparr>"

text \<open>
  Ten columns, the three last of them empty, and a row for each expected zone: 30 percent
  of the entries are null.
\<close>

definition zone_row :: "string \<Rightarrow> row" where
  "zone_row z =
     mk_row [(''zone'', Str z), (''indicator'', Str ''NDVI_current''),
             (''year'', Num (Fin 2024)), (''month'', Num (Fin 1)),
             (''NDVI'', Num (Fin (1 / 2))), (''EVI'', Num (Fin (2 / 5))),
             (''NDWI'', Num (Fin (1 / 10)))]"

definition thirty_pct_table :: table where
  "thirty_pct_table =
     \<lparr>columns = [(''zone'', Object), (''indicator'', Object), (''year'', Numeric),
                 (''month'', Numeric), (''NDVI'', Numeric), (''EVI'', Numeric),
                 (''NDWI'', Numeric), (''NDVI_stdDev'', Numeric), (''EVI_stdDev'', Numeric),
                 (''NDWI_stdDev'', Numeric)],
      rows = [zone_row ''Usangu GR'', zone_row ''Ihefu Core'', zone_row ''Nyerere NP'']\<rparr>"

text \<open>
  The sets that a run prints hold required column names or expected zone names.  Two
  orders in which a process may print them: each lists the elements of the set in the
  order of a fixed list, the second in the reverse order of the first.
\<close>

definition printed_names :: "string list" where
  "printed_names =
     [''zone'', ''indicator'', ''year'', ''month'', ''Usangu GR'', ''Ihefu Core'', ''Nyerere NP'']"

definition listing_order :: "string list \<Rightarrow> set_order" where
  "listing_order zs S = filter (\<lambda>z. z \<in> S) zs"

definition zone_order :: set_order where
  "zone_order = listing_order printed_names"

definition zone_order_rev :: set_order where
  "zone_order_rev = listing_order (rev printed_names)"

text \<open>
  What the order of every process satisfies: a set of required columns or of expected
  zones is printed with each of its elements once.
\<close>

definition valid_set_order :: "set_order \<Rightarrow> bool" where
  "valid_set_order ord =
     (\<forall>S. S \<subseteq> required_cols \<or> S \<subseteq> set (map snd ZONE_NAMES)
          \<longrightarrow> set (ord S) = S \<and> distinct (ord S))"

text \<open>Thresholds as the configuration contract asks: both negative, high below moderate.\<close>

definition example_thresholds :: thresholds where
  "example_thresholds = \<lparr>ndvi_evi_high = - 25, ndvi_evi_moderate = - 15\<rparr>"

text \<open>The NDVI record of a zone whose current mean is d percent off a baseline mean of 1.\<close>

definition ndvi_deviation :: "string \<Rightarrow> rat \<Rightarrow> deviation" where
  "ndvi_deviation z d =
     \<lparr>d_zone = Str z, d_indicator = ''NDVI'', d_current = Fin (1 + d / 100),
      d_baseline = Fin 1, deviation_pct = Some (Fin d)\<rparr>"

text \<open>A climate export with a land surface temperature column, for Ihefu Core.\<close>

definition lst_table :: table where
  "lst_table =
     \<lparr>columns = [(''zone'', Object), (''indicator'', Object), (''year'', Numeric),
                 (''month'', Numeric), (''LST_Day'', Numeric)],
      rows = [mk_row [(''zone'', Str ''Ihefu Core''), (''indicator'', Str ''climate_current''),
                      (''year'', Num (Fin 2024)), (''month'', Num (Fin 1)),
                      (''LST_Day'', Num (Fin 30))],
              mk_row [(''zone'', Str ''Ihefu Core''), (''indicator'', Str ''climate_baseline''),
                      (''year'', Num (Fin 2024)), (''month'', Num (Fin 1)),
                      (''LST_Day'', Num (Fin 25))]]\<rparr>"

text \<open>A fire export with three detections in Nyerere NP.\<close>

definition fire_row :: row where
  "fire_row = mk_row [(''zone'', Str ''Nyerere NP''), (''indicator'', Str ''fire''),
                      (''year'', Num (Fin 2024)), (''month'', Num (Fin 1)),
                      (''count'', Num (Fin 3))]"

definition fire_table :: table where
  "fire_table =
     \<lparr>columns = [(''zone'', Object), (''indicator'', Object), (''year'', Numeric),
                 (''month'', Numeric), (''count'', Numeric)],
      rows = [fire_row]\<rparr>"

text \<open>
  The fire rule in the words of the specification: for each row and each fire-count column,
  a value that is present and positive gives one HIGH "Active Fire" alert of the row's
  zone whose detail shows the value as an integer; any other value gives none.  The
  entries are (zone, indicator, severity, detail).
\<close>

definition expected_fire_cell :: "row \<Rightarrow> string \<Rightarrow> (cell \<times> string \<times> severity \<times> string option) list" where
  "expected_fire_cell r c =
     (case r c of
        Num (Fin v) \<Rightarrow>
          if 0 < v
          then [(r ''zone'', ''Active Fire'', HIGH,
                 Some (''Fire detections: '' @ str_of_int (trunc v)))]
          else []
      | _ \<Rightarrow> [])"

definition expected_fire :: "table \<Rightarrow> (cell \<times> string \<times> severity \<times> string option) list" where
  "expected_fire df =
     concat (map (\<lambda>r. concat (map (expected_fire_cell r) (fire_count_cols df))) (rows df))"

definition alert_summary :: "alert \<Rightarrow> cell \<times> string \<times> severity \<times> string option" where
  "alert_summary a = (a_zone a, a_indicator a, a_severity a, a_detail a)"




text \<open>The table without the rows of one zone.\<close>

definition drop_zone :: "cell \<Rightarrow> table \<Rightarrow> table" where
  "drop_zone z df = df\<lparr>rows := filter (\<lambda>r. r ''zone'' \<noteq> z) (rows df)\<rparr>"

definition ndvi_header :: "(string \<times> dtype) list" where
  "ndvi_header = [(''zone'', Object), (''indicator'', Object), (''year'', Numeric),
                  (''month'', Numeric), (''NDVI'', Numeric)]"

definition ndvi_row :: "string \<Rightarrow> string \<Rightarrow> pyfloat \<Rightarrow> row" where
  "ndvi_row z ind v =
     mk_row [(''zone'', Str z), (''indicator'', Str ind), (''year'', Num (Fin 2024)),
             (''month'', Num (Fin 1)), (''NDVI'', Num v)]"





text \<open>Usangu GR has current and baseline rows (0.42 against 0.60); Ihefu Core has no baseline.\<close>

definition gap_table :: table where
  "gap_table =
     \<lparr>columns = ndvi_header,
      rows = [ndvi_row ''Usangu GR'' ''NDVI_current'' (Fin (21 / 50)),
              ndvi_row ''Ihefu Core'' ''NDVI_current'' (Fin (1 / 2)),
              ndvi_row ''Usangu GR'' ''NDVI_baseline'' (Fin (3 / 5))]\<rparr>"

definition usangu_deviation :: deviation where
  "usangu_deviation =
     \<lparr>d_zone = Str ''Usangu GR'', d_indicator = ''NDVI'', d_current = Fin (21 / 50),
      d_baseline = Fin (3 / 5), deviation_pct = Some (Fin (- 30))\<rparr>"




text \<open>
  What two runs on the same inputs are compared by.  A list that prints a set counts as
  the multiset of its elements, so two listings of a set in different orders are the same;
  the clock reading \<open>generated_at\<close> is blanked and the \<open>timestamp\<close> of the quality report
  is left out.  Every other field of a check, of the report, of the document and of the
  outcome of a run is kept as it is.
\<close>

type_synonym note_v = "pyfloat + string multiset"

type_synonym check_v = "string \<times> nat \<times> pyfloat \<times> cell list \<times> status \<times> note_v option"

type_synonym document_v =
  "metadata \<times> (check_v list \<times> status) \<times> deviation list \<times> alert list \<times> datasets"

definition error_view :: "error \<Rightarrow> string multiset + error" where
  "error_view e = (case e of MissingRequiredColumns cs \<Rightarrow> Inl (mset cs) | _ \<Rightarrow> Inr e)"

definition note_view :: "check_note \<Rightarrow> note_v" where
  "note_view n = (case n of HighNullRate p \<Rightarrow> Inl p | MissingZones zs \<Rightarrow> Inr (mset zs))"

definition check_view :: "check \<Rightarrow> check_v" where
  "check_view c =
     (dataset c, records c, null_pct c, zones_present c, status c,
      map_option note_view (chk_note c))"

definition quality_view :: "quality \<Rightarrow> check_v list \<times> status" where
  "quality_view q = (map check_view (checks q), overall_status q)"

definition document_view :: "document \<Rightarrow> document_v" where
  "document_view doc =
     ((doc_metadata doc)\<lparr>generated_at := ''''\<rparr>, quality_view (data_quality doc),
      doc_deviations doc, doc_alerts doc, raw_datasets doc)"

definition outcome_view ::
  "outcome \<Rightarrow> document_v option \<times> (string \<times> document_v) option \<times> log_record list" where
  "outcome_view out =
     (map_option document_view (returned out),
      map_option (\<lambda>(path, doc). (path, document_view doc)) (written out),
      logged out)"

definition run_view ::
  "error + outcome
     \<Rightarrow> (string multiset + error)
         + (document_v option \<times> (string \<times> document_v) option \<times> log_record list)" where
  "run_view r = map_sum error_view outcome_view r"

text \<open>The notes of the quality report in the document that a run returns.\<close>

definition returned_notes :: "error + outcome \<Rightarrow> check_note option list" where
  "returned_notes r =
     (case r of
        Inl e \<Rightarrow> []
      | Inr out \<Rightarrow>
          (case returned out of
             None \<Rightarrow> []
           | Some doc \<Rightarrow> map chk_note (checks (data_quality doc))))"

text \<open>A fire export without the zone column, and a climate export without the year column.\<close>

definition no_zone_table :: table where
  "no_zone_table =
     \<lparr>columns = [(''indicator'', Object), (''year'', Numeric), (''month'', Numeric),
                 (''count'', Numeric)],
      rows = [mk_row [(''indicator'', Str ''fire''), (''year'', Num (Fin 2024)),
                      (''month'', Num (Fin 1)), (''count'', Num (Fin 3))]]\<rparr>"


definition exports_bad_fire :: exports_dir where
  "exports_bad_fire =
     [''ndvi_evi_2024_01.csv'' \<mapsto> gap_table, ''fire_burn_2024_01.csv'' \<mapsto> no_zone_table]"


definition exports_two :: exports_dir where
  "exports_two =
     [''ndvi_evi_2024_01.csv'' \<mapsto> gap_table, ''fire_burn_2024_01.csv'' \<mapsto> fire_table]"

section \<open>Properties\<close>

subsection \<open>Float arithmetic\<close>

text \<open>The overflow bound as a numeral, which is how it is evaluated.\<close>

lemma overflow_bound_numeral [code]:
  "overflow_bound =
     179769313486231580793728971405303415079934132710037826936173778980444968292764750946649017977587207096330286416692887910946555547851940402630657488671505820681908902000708383676273854845817711531764475730270069855571366959622842914819860834936475292719074168444365510704342711559699508093042880177904174497792"
  unfolding overflow_bound_def by simp

lemma fin_result_not_nan [simp]: "fin_result x \<noteq> NaN"
  by (simp add: fin_result_def)





lemma py_round_infinite [simp]: "py_round PInf nd = PInf" "py_round NInf nd = NInf"
  by (simp_all add: py_round_def)




subsection \<open>Quality validator\<close>

lemma missing_zones_flag_high [simp]:
  "missing_zones_of (flag_high_null_rate chk) = missing_zones_of chk"
  by (simp add: missing_zones_of_def flag_high_null_rate_def)

lemma missing_zones_quality_check:
  "missing_zones_of (quality_check ord key df) =
     {z \<in> set (map snd ZONE_NAMES). Str z \<notin> (\<lambda>r. r ''zone'') ` set (rows df)}"
  by (auto simp add: quality_check_def flag_missing_zones_def flag_high_null_rate_def
        missing_zones_of_def unique_def Let_def)

lemma status_quality_check:
  "status (quality_check ord key df) =
     (if fl_gt (null_pct_of df) (Fin 30)
         \<or> {z \<in> set (map snd ZONE_NAMES). Str z \<notin> (\<lambda>r. r ''zone'') ` set (rows df)} \<noteq> {}
      then WARNING else PASS)"
  by (auto simp add: quality_check_def flag_missing_zones_def flag_high_null_rate_def
        missing_zones_of_def unique_def Let_def)

lemma note_quality_check:
  "chk_note (quality_check ord key df) =
     (let ms = {z \<in> set (map snd ZONE_NAMES). Str z \<notin> (\<lambda>r. r ''zone'') ` set (rows df)}
      in if ms \<noteq> {} then Some (MissingZones (ord ms))
         else if fl_gt (null_pct_of df) (Fin 30) then Some (HighNullRate (null_pct_of df))
         else None)"
  by (auto simp add: quality_check_def flag_missing_zones_def flag_high_null_rate_def
        missing_zones_of_def unique_def Let_def)

lemma checks_validate_loop:
  "checks (validate_loop ord ds q) = checks q @ map (\<lambda>(key, df). quality_check ord key df) ds"
  by (induction ds arbitrary: q) (auto simp add: Let_def)

lemma overall_validate_loop:
  "overall_status (validate_loop ord ds q) = WARNING \<longleftrightarrow>
     overall_status q = WARNING \<or> (\<exists>p \<in> set ds. status (quality_check ord (fst p) (snd p)) \<noteq> PASS)"
proof (induction ds arbitrary: q)
  case Nil
  show ?case by simp
next
  case (Cons p ds)
  obtain key df where p: "p = (key, df)" by (cases p)
  show ?case
  proof (cases "status (quality_check ord key df) = PASS")
    case True
    then show ?thesis by (simp add: p Cons.IH Let_def)
  next
    case False
    then show ?thesis by (simp add: p Cons.IH Let_def)
  qed
qed

text \<open>
  C10.  When a dataset both exceeds the 30 percent null rate and lacks an expected zone, the
  note of its check is the missing-zones message alone (with the set of all missing
  zones, as the process prints it): the later check replaces the null-rate note, and the
  status is WARNING.
\<close>

theorem quality_note_overwritten:
  assumes "fl_gt (null_pct_of df) (Fin 30)"
    and "z \<in> set (map snd ZONE_NAMES)"
    and "Str z \<notin> (\<lambda>r. r ''zone'') ` set (rows df)"
  shows "chk_note (quality_check ord key df) =
           Some (MissingZones (ord {z \<in> set (map snd ZONE_NAMES).
                                     Str z \<notin> (\<lambda>r. r ''zone'') ` set (rows df)}))
         \<and> status (quality_check ord key df) = WARNING"
  using assms by (auto simp add: note_quality_check status_quality_check Let_def)

theorem quality_note_overwritten_witness:
  "fl_gt (null_pct_of half_null_table) (Fin 30)
   \<and> chk_note (quality_check zone_order ''fire'' half_null_table)
       = Some (MissingZones [''Ihefu Core'', ''Nyerere NP''])
   \<and> status (quality_check zone_order ''fire'' half_null_table) = WARNING"
proof -
  have h1: "fl_gt (null_pct_of half_null_table) (Fin 30)" by code_simp
  have h2: "''Ihefu Core'' \<in> set (map snd ZONE_NAMES)" by code_simp
  have h3: "Str ''Ihefu Core'' \<notin> (\<lambda>r. r ''zone'') ` set (rows half_null_table)" by code_simp
  have h4: "zone_order {z \<in> set (map snd ZONE_NAMES).
              Str z \<notin> (\<lambda>r. r ''zone'') ` set (rows half_null_table)}
            = [''Ihefu Core'', ''Nyerere NP'']" by code_simp
  show ?thesis
    using quality_note_overwritten [OF h1 h2 h3, where ord = zone_order and key = "''fire''"]
      h1 h4 by simp
qed

text \<open>
  C6.  The null-rate warning is strict.  A dataset whose rounded null percentage is exactly
  30.0, with every expected zone present, keeps status PASS and gets no note; a null
  percentage above 30 gives status WARNING with a note, and the overall status of a
  report containing that dataset is WARNING.
\<close>

theorem null_rate_warning_strict:
  "(null_pct_of df = Fin 30
      \<and> (\<forall>z \<in> set (map snd ZONE_NAMES). Str z \<in> (\<lambda>r. r ''zone'') ` set (rows df))
      \<longrightarrow> status (quality_check ord key df) = PASS \<and> chk_note (quality_check ord key df) = None)
   \<and> (fl_gt (null_pct_of df) (Fin 30)
      \<longrightarrow> status (quality_check ord key df) = WARNING \<and> chk_note (quality_check ord key df) \<noteq> None)
   \<and> (fl_gt (null_pct_of df) (Fin 30) \<and> (key, df) \<in> set ds
      \<longrightarrow> quality_check ord key df \<in> set (checks (validate_data_quality ord now ds))
          \<and> overall_status (validate_data_quality ord now ds) = WARNING)
   \<and> null_pct (quality_check ord key df) = null_pct_of df"
proof (intro conjI impI)
  assume "null_pct_of df = Fin 30
      \<and> (\<forall>z \<in> set (map snd ZONE_NAMES). Str z \<in> (\<lambda>r. r ''zone'') ` set (rows df))"
  then show "status (quality_check ord key df) = PASS" "chk_note (quality_check ord key df) = None"
    by (auto simp add: status_quality_check note_quality_check fl_gt_def Let_def)
next
  assume "fl_gt (null_pct_of df) (Fin 30)"
  then show "status (quality_check ord key df) = WARNING" "chk_note (quality_check ord key df) \<noteq> None"
    by (auto simp add: status_quality_check note_quality_check Let_def)
next
  assume a: "fl_gt (null_pct_of df) (Fin 30) \<and> (key, df) \<in> set ds"
  then have "status (quality_check ord key df) \<noteq> PASS"
    by (simp add: status_quality_check)
  with a show "overall_status (validate_data_quality ord now ds) = WARNING"
    by (force simp add: validate_data_quality_def overall_validate_loop)
  from a show "quality_check ord key df \<in> set (checks (validate_data_quality ord now ds))"
    by (force simp add: validate_data_quality_def checks_validate_loop)
next
  show "null_pct (quality_check ord key df) = null_pct_of df"
    by (simp add: quality_check_def flag_missing_zones_def flag_high_null_rate_def Let_def)
qed

theorem null_rate_warning_strict_witness:
  "null_pct_of thirty_pct_table = Fin 30
   \<and> status (quality_check zone_order ''ndvi_evi'' thirty_pct_table) = PASS
   \<and> chk_note (quality_check zone_order ''ndvi_evi'' thirty_pct_table) = None
   \<and> fl_gt (null_pct_of half_null_table) (Fin 30)
   \<and> status (quality_check zone_order ''fire'' half_null_table) = WARNING
   \<and> overall_status (validate_data_quality zone_order ''t'' [(''fire'', half_null_table)])
       = WARNING"
proof -
  have h1: "null_pct_of thirty_pct_table = Fin 30" by code_simp
  have h2: "\<forall>z \<in> set (map snd ZONE_NAMES).
              Str z \<in> (\<lambda>r. r ''zone'') ` set (rows thirty_pct_table)" by code_simp
  have h3: "fl_gt (null_pct_of half_null_table) (Fin 30)" by code_simp
  have h4: "(''fire'', half_null_table) \<in> set [(''fire'', half_null_table)]" by simp
  show ?thesis
    using null_rate_warning_strict
            [where df = thirty_pct_table and ord = zone_order and key = "''ndvi_evi''"
               and ds = "[]" and now = "''t''"]
      null_rate_warning_strict
            [where df = half_null_table and ord = zone_order and key = "''fire''"
               and ds = "[(''fire'', half_null_table)]" and now = "''t''"]
      h1 h2 h3 h4 by blast
qed

subsection \<open>Alert classifier\<close>

lemma base_severity_Fin:
  "base_severity th (Fin d) =
     (if d \<le> ndvi_evi_high th then Some HIGH
      else if d \<le> ndvi_evi_moderate th then Some MODERATE else None)"
  by (simp add: base_severity_def)

lemma ndvi_evi_alert_severity:
  assumes "deviation_pct row = Some dev"
    and "(str_in ''NDVI'' (d_indicator row) \<or> str_in ''EVI'' (d_indicator row))
         \<and> \<not> str_in ''stdDev'' (d_indicator row)"
  shows "map a_severity (ndvi_evi_alert th row) =
           (case base_severity th dev of
              None \<Rightarrow> []
            | Some sev \<Rightarrow> [fst (escalate (d_zone row) sev)])"
  using assms
  by (auto simp add: ndvi_evi_alert_def ndvi_evi_record_def Let_def
        split: option.splits prod.splits)

text \<open>
  C5.  For an NDVI/EVI deviation record with a deviation that is not null: a deviation
  equal to the high threshold gives one alert, of severity HIGH; both comparisons are
  inclusive (at or below high: HIGH; above high and at or below moderate: MODERATE, or
  HIGH in Ihefu Core); a deviation above both thresholds gives no alert, and so does any
  deviation above the moderate threshold when the thresholds are configured with high
  at or below moderate.
\<close>

theorem ndvi_evi_threshold_inclusive:
  assumes "deviation_pct row = Some (Fin d)"
    and "(str_in ''NDVI'' (d_indicator row) \<or> str_in ''EVI'' (d_indicator row))
         \<and> \<not> str_in ''stdDev'' (d_indicator row)"
  shows "(d = ndvi_evi_high th \<longrightarrow> map a_severity (ndvi_evi_alert th row) = [HIGH])
       \<and> (d \<le> ndvi_evi_high th \<longrightarrow> map a_severity (ndvi_evi_alert th row) = [HIGH])
       \<and> (ndvi_evi_high th < d \<and> d \<le> ndvi_evi_moderate th \<longrightarrow>
            map a_severity (ndvi_evi_alert th row)
              = [if d_zone row = Str ''Ihefu Core'' then HIGH else MODERATE])
       \<and> (ndvi_evi_high th < d \<and> ndvi_evi_moderate th < d \<longrightarrow> ndvi_evi_alert th row = [])
       \<and> (ndvi_evi_high th \<le> ndvi_evi_moderate th \<and> ndvi_evi_moderate th < d \<longrightarrow>
            ndvi_evi_alert th row = [])"
proof -
  have sev: "map a_severity (ndvi_evi_alert th row) =
           (case base_severity th (Fin d) of
              None \<Rightarrow> []
            | Some sev \<Rightarrow> [fst (escalate (d_zone row) sev)])"
    using assms by (rule ndvi_evi_alert_severity)
  have none: "ndvi_evi_high th < d \<and> ndvi_evi_moderate th < d \<Longrightarrow> ndvi_evi_alert th row = []"
    using sev by (simp add: base_severity_Fin)
  show ?thesis
    using sev none by (auto simp add: base_severity_Fin escalate_def)
qed

theorem ndvi_evi_threshold_inclusive_witness:
  "map a_severity (ndvi_evi_alert example_thresholds (ndvi_deviation ''Usangu GR'' (- 25))) = [HIGH]
   \<and> map a_severity (ndvi_evi_alert example_thresholds (ndvi_deviation ''Usangu GR'' (- 15)))
       = [MODERATE]
   \<and> ndvi_evi_alert example_thresholds (ndvi_deviation ''Usangu GR'' (- 10)) = []"
proof -
  have ind: "(str_in ''NDVI'' (d_indicator (ndvi_deviation ''Usangu GR'' d))
               \<or> str_in ''EVI'' (d_indicator (ndvi_deviation ''Usangu GR'' d)))
             \<and> \<not> str_in ''stdDev'' (d_indicator (ndvi_deviation ''Usangu GR'' d))" for d
    by (simp add: ndvi_deviation_def)
  have dev: "deviation_pct (ndvi_deviation ''Usangu GR'' d) = Some (Fin d)" for d
    by (simp add: ndvi_deviation_def)
  have z: "d_zone (ndvi_deviation ''Usangu GR'' d) \<noteq> Str ''Ihefu Core''" for d
    by (simp add: ndvi_deviation_def)
  show ?thesis
    using ndvi_evi_threshold_inclusive [OF dev ind, of "- 25" example_thresholds]
      ndvi_evi_threshold_inclusive [OF dev ind, of "- 15" example_thresholds]
      ndvi_evi_threshold_inclusive [OF dev ind, of "- 10" example_thresholds]
      z
    by (simp add: example_thresholds_def)
qed

text \<open>
  C1.  The escalation of MODERATE to HIGH in Ihefu Core is applied by the NDVI/EVI rule
  only.  A land surface temperature anomaly of 5 degrees in Ihefu Core comes out of a
  whole run as a MODERATE alert for Ihefu Core, with no escalation key.
\<close>

theorem lst_alert_ihefu_stays_moderate:
  "(case compile_monthly_dataset mean zone_order example_thresholds [''climate_2024_01.csv'' \<mapsto> lst_table]
           ''t1'' ''t2'' 2024 1 of
      Inl e \<Rightarrow> None
    | Inr out \<Rightarrow>
        map_option (\<lambda>d. map (\<lambda>a. (a_zone a, a_indicator a, a_severity a, a_escalation a))
                            (doc_alerts d))
                   (returned out))
   = Some [(Str ''Ihefu Core'', ''Land Surface Temperature'', MODERATE, NoKey)]"
  by code_simp

lemma fire_row_alerts_expected:
  "fire_row_alerts r cols = Inr as \<Longrightarrow>
     map alert_summary as = concat (map (expected_fire_cell r) cols)
     \<and> (\<forall>a \<in> set as. a_indicator a = ''Active Fire'')"
proof (induction cols arbitrary: as)
  case Nil
  then show ?case by simp
next
  case (Cons col cols)
  then show ?case
    by (auto simp add: expected_fire_cell_def alert_summary_def fire_alert_def
          split: cell.splits pyfloat.splits sum.splits if_splits)
qed

lemma fire_rows_alerts_expected:
  "fire_rows_alerts cols rs = Inr as \<Longrightarrow>
     map alert_summary as = concat (map (\<lambda>r. concat (map (expected_fire_cell r) cols)) rs)
     \<and> (\<forall>a \<in> set as. a_indicator a = ''Active Fire'')"
proof (induction rs arbitrary: as)
  case Nil
  then show ?case by simp
next
  case (Cons r rs)
  from Cons.prems obtain as1 as2 where
    r: "fire_row_alerts r cols = Inr as1" and rs: "fire_rows_alerts cols rs = Inr as2"
    and as: "as = as1 @ as2"
    by (auto split: sum.splits)
  show ?case
    using fire_row_alerts_expected [OF r] Cons.IH [OF rs] by (auto simp add: as)
qed

lemma ndvi_evi_alert_all_indicator:
  "list_all (\<lambda>a. a_indicator a = ''NDVI'' \<or> a_indicator a = ''EVI'') (ndvi_evi_alert th row)"
  by (simp add: ndvi_evi_alert_def ndvi_evi_record_def Let_def split: option.splits prod.splits)

lemma ndvi_evi_alert_indicator:
  "a \<in> set (ndvi_evi_alert th row) \<Longrightarrow> a_indicator a = ''NDVI'' \<or> a_indicator a = ''EVI''"
  using ndvi_evi_alert_all_indicator [of th row] by (simp add: list_all_iff)

lemma rainfall_alert_cases:
  "rainfall_alert row = [] \<or> (\<exists>dev. rainfall_alert row = [rainfall_record row dev])"
  by (auto simp add: rainfall_alert_def split: option.splits)

lemma lst_alert_cases:
  "lst_alert row = [] \<or> (\<exists>x. lst_alert row = [lst_record row x])"
  by (auto simp add: lst_alert_def Let_def)

lemma rainfall_alert_indicator:
  "a \<in> set (rainfall_alert row) \<Longrightarrow> a_indicator a = ''Rainfall Deficit''"
  using rainfall_alert_cases [of row] by (auto simp add: rainfall_record_def)

lemma lst_alert_indicator:
  "a \<in> set (lst_alert row) \<Longrightarrow> a_indicator a = ''Land Surface Temperature''"
  using lst_alert_cases [of row] by (auto simp add: lst_record_def)

lemma filter_none: "(\<And>x. x \<in> set xs \<Longrightarrow> \<not> P x) \<Longrightarrow> filter P xs = []"
  by (induction xs) auto

lemma filter_all: "(\<And>x. x \<in> set xs \<Longrightarrow> P x) \<Longrightarrow> filter P xs = xs"
  by (induction xs) auto

lemma str_in_append: "str_in n (p @ n @ q)"
proof (induction p)
  case Nil
  have "starts_with (n @ q) n" by (induction n) auto
  then show ?case by (cases "n @ q") auto
next
  case (Cons c p)
  then show ?case by simp
qed

lemma starts_with_split: "starts_with h n \<Longrightarrow> \<exists>q. h = n @ q"
  by (induction h n rule: starts_with.induct) auto

lemma str_in_split: "str_in n h \<Longrightarrow> \<exists>p q. h = p @ n @ q"
proof (induction h)
  case Nil
  then show ?case by simp
next
  case (Cons c h)
  show ?case
  proof (cases "starts_with (c # h) n")
    case True
    then obtain q where "c # h = n @ q" using starts_with_split by blast
    then have "c # h = [] @ n @ q" by simp
    then show ?thesis by blast
  next
    case False
    with Cons.prems have "str_in n h" by simp
    then obtain p q where "h = p @ n @ q" using Cons.IH by blast
    then have "c # h = (c # p) @ n @ q" by simp
    then show ?thesis by blast
  qed
qed

lemma str_in_lower:
  assumes "str_in n h" and "lower n = n"
  shows "str_in n (lower h)"
proof -
  obtain p q where "h = p @ n @ q" using assms(1) str_in_split by blast
  then have "lower h = lower p @ n @ lower q"
    using assms(2) by (simp add: lower_def)
  then show ?thesis by (simp add: str_in_append)
qed

lemma lower_count: "lower ''count'' = ''count''"
  by code_simp

lemma fire_alerts_only_fire:
  assumes "fire_alerts ds = Inr fire"
  shows "filter (\<lambda>a. a_indicator a = ''Active Fire'')
           (concat (map (ndvi_evi_alert th) deviations) @ fire
              @ concat (map climate_alerts deviations)) = fire"
proof -
  have f: "\<forall>a \<in> set fire. a_indicator a = ''Active Fire''"
    using assms fire_rows_alerts_expected
    by (auto simp add: fire_alerts_def split: option.splits)
  have n: "filter (\<lambda>a. a_indicator a = ''Active Fire'')
             (concat (map (ndvi_evi_alert th) deviations)) = []"
    by (rule filter_none) (auto dest: ndvi_evi_alert_indicator)
  have c: "filter (\<lambda>a. a_indicator a = ''Active Fire'')
             (concat (map climate_alerts deviations)) = []"
    by (rule filter_none)
       (auto simp add: climate_alerts_def dest: rainfall_alert_indicator lst_alert_indicator)
  have "filter (\<lambda>a. a_indicator a = ''Active Fire'') fire = fire"
    using f by (intro filter_all) simp
  with n c show ?thesis by simp
qed

text \<open>
  C7.  Whenever the classifier returns its list, the "Active Fire" alerts in it are, row by
  row of the fire dataset and column by column of the row, one HIGH alert for each value
  that is present and positive, with the row's zone and the detail "Fire detections: n"
  for the value n as an integer, and nothing for a value that is missing or not positive.
  Every column whose name contains "count" or "T21" is among the columns examined.
\<close>

theorem fire_alert_per_positive_value:
  assumes "detect_alerts th ds deviations = Inr alerts"
    and "map_of ds ''fire'' = Some fire_df"
  shows "map alert_summary (filter (\<lambda>a. a_indicator a = ''Active Fire'') alerts)
           = expected_fire fire_df
         \<and> (\<forall>c \<in> set (column_names fire_df).
               str_in ''count'' c \<or> str_in ''T21'' c \<longrightarrow> c \<in> set (fire_count_cols fire_df))"
proof -
  from assms(1) obtain fire where fire: "fire_alerts ds = Inr fire"
    and alerts: "alerts = concat (map (ndvi_evi_alert th) deviations) @ fire
                   @ concat (map climate_alerts deviations)"
    by (auto simp add: detect_alerts_def split: sum.splits)
  have "filter (\<lambda>a. a_indicator a = ''Active Fire'') alerts = fire"
    unfolding alerts using fire by (rule fire_alerts_only_fire)
  moreover have "fire_rows_alerts (fire_count_cols fire_df) (rows fire_df) = Inr fire"
    using fire assms(2) by (simp add: fire_alerts_def)
  then have "map alert_summary fire = expected_fire fire_df"
    using fire_rows_alerts_expected by (simp add: expected_fire_def)
  moreover have "\<forall>c \<in> set (column_names fire_df).
               str_in ''count'' c \<or> str_in ''T21'' c \<longrightarrow> c \<in> set (fire_count_cols fire_df)"
    using str_in_lower [OF _ lower_count] by (auto simp add: fire_count_cols_def)
  ultimately show ?thesis by simp
qed

theorem fire_alert_per_positive_value_witness:
  "detect_alerts example_thresholds [(''fire'', fire_table)] [] = Inr [fire_alert fire_row 3]
   \<and> map_of [(''fire'', fire_table)] ''fire'' = Some fire_table
   \<and> map alert_summary (filter (\<lambda>a. a_indicator a = ''Active Fire'') [fire_alert fire_row 3])
       = [(Str ''Nyerere NP'', ''Active Fire'', HIGH, Some ''Fire detections: 3'')]
   \<and> ''count'' \<in> set (fire_count_cols fire_table)"
proof -
  have h1: "detect_alerts example_thresholds [(''fire'', fire_table)] []
              = Inr [fire_alert fire_row 3]"
    by code_simp
  have h2: "map_of [(''fire'', fire_table)] ''fire'' = Some fire_table" by simp
  have h3: "expected_fire fire_table
              = [(Str ''Nyerere NP'', ''Active Fire'', HIGH, Some ''Fire detections: 3'')]"
    by code_simp
  have h4: "''count'' \<in> set (column_names fire_table) \<and> str_in ''count'' ''count''"
    by code_simp
  show ?thesis
    using fire_alert_per_positive_value [OF h1 h2] h1 h2 h3 h4 by auto
qed

text \<open>
  The NDVI/EVI rule, the fire rule and the rainfall rule never leave a MODERATE alert in
  Ihefu Core, and an NDVI/EVI alert whose base severity is MODERATE there carries the note.
\<close>

lemma ndvi_evi_alert_escalated:
  "list_all (\<lambda>a. (a_zone a = Str ''Ihefu Core'' \<longrightarrow> a_severity a = HIGH)
                \<and> (a_zone a = Str ''Ihefu Core''
                     \<and> (\<exists>dev. deviation_pct row = Some dev \<and> base_severity th dev = Some MODERATE)
                    \<longrightarrow> a_escalation a = Note ''Escalated: MODERATE in Ihefu Core -> HIGH''))
            (ndvi_evi_alert th row)"
  by (auto simp add: ndvi_evi_alert_def ndvi_evi_record_def escalate_def Let_def
        split: option.splits prod.splits if_splits intro: severity.exhaust)

lemma rainfall_alert_high: "a \<in> set (rainfall_alert row) \<Longrightarrow> a_severity a = HIGH"
  using rainfall_alert_cases [of row] by (auto simp add: rainfall_record_def)

subsection \<open>Deviation calculator\<close>

lemma deviation_record_fields [simp]:
  "d_zone (deviation_record sm zone col zc zb) = zone"
  "d_indicator (deviation_record sm zone col zc zb) = col"
  "d_current (deviation_record sm zone col zc zb) = py_round (sm (col_vals zc col)) 4"
  "d_baseline (deviation_record sm zone col zc zb) = py_round (sm (col_vals zb col)) 4"
  by (simp_all add: deviation_record_def Let_def)







lemma zone_deviations_member:
  assumes "d \<in> set (zone_deviations sm df zone)"
  shows "d = deviation_record sm zone (d_indicator d)
               (zone_rows zone (current_rows df)) (zone_rows zone (baseline_rows df))"
    and "\<not> List.null (zone_rows zone (current_rows df))"
    and "\<not> List.null (zone_rows zone (baseline_rows df))"
proof -
  let ?zc = "zone_rows zone (current_rows df)" and ?zb = "zone_rows zone (baseline_rows df)"
  have nn: "\<not> (List.null ?zc \<or> List.null ?zb)"
    using assms by (auto simp add: zone_deviations_def Let_def)
  then show "\<not> List.null ?zc" and "\<not> List.null ?zb" by simp_all
  from nn have "zone_deviations sm df zone =
      concat (map (\<lambda>col. if col \<in> {''year'', ''month''} then []
                          else [deviation_record sm zone col ?zc ?zb]) (numeric_columns df))"
    by (simp add: zone_deviations_def Let_def)
  with assms have "d \<in> set (concat (map (\<lambda>col. if col \<in> {''year'', ''month''} then []
                          else [deviation_record sm zone col ?zc ?zb]) (numeric_columns df)))"
    by simp
  then obtain col where "d = deviation_record sm zone col ?zc ?zb"
    by (auto split: if_splits)
  then show "d = deviation_record sm zone (d_indicator d) ?zc ?zb" by simp
qed

lemma compute_deviations_Inr:
  "compute_deviations sm df = Inr devs \<longleftrightarrow>
     list_all (\<lambda>r. is_text (r ''indicator'')) (rows df)
     \<and> devs = concat (map (zone_deviations sm df) (unique (map (\<lambda>r. r ''zone'') (rows df))))"
  by (auto simp add: compute_deviations_def)

lemma compute_deviations_member:
  assumes "compute_deviations sm df = Inr devs" and "d \<in> set devs"
  shows "d = deviation_record sm (d_zone d) (d_indicator d)
               (zone_rows (d_zone d) (current_rows df)) (zone_rows (d_zone d) (baseline_rows df))"
    and "\<not> List.null (zone_rows (d_zone d) (current_rows df))"
    and "\<not> List.null (zone_rows (d_zone d) (baseline_rows df))"
proof -
  from assms have "d \<in> set (concat (map (zone_deviations sm df)
                                         (unique (map (\<lambda>r. r ''zone'') (rows df)))))"
    by (simp add: compute_deviations_Inr)
  then obtain zone where m: "d \<in> set (zone_deviations sm df zone)"
    by auto
  note zm = zone_deviations_member [OF m]
  have "d_zone d = d_zone (deviation_record sm zone (d_indicator d)
               (zone_rows zone (current_rows df)) (zone_rows zone (baseline_rows df)))"
    using zm(1) by (rule arg_cong)
  then have z: "d_zone d = zone"
    by (simp only: deviation_record_fields)
  show "d = deviation_record sm (d_zone d) (d_indicator d)
               (zone_rows (d_zone d) (current_rows df)) (zone_rows (d_zone d) (baseline_rows df))"
    unfolding z by (rule zm(1))
  show "\<not> List.null (zone_rows (d_zone d) (current_rows df))"
    unfolding z by (rule zm(2))
  show "\<not> List.null (zone_rows (d_zone d) (baseline_rows df))"
    unfolding z by (rule zm(3))
qed




lemma unique_filter: "unique (filter P xs) = filter P (unique xs)"
  by (simp add: unique_def rev_filter remdups_filter)

lemma zones_drop_zone:
  "map (\<lambda>r. r ''zone'') (filter (\<lambda>r. r ''zone'' \<noteq> z) rs)
     = filter (\<lambda>c. c \<noteq> z) (map (\<lambda>r. r ''zone'') rs)"
  by (induction rs) auto

lemma current_rows_drop_zone:
  "current_rows (drop_zone z df) = filter (\<lambda>r. r ''zone'' \<noteq> z) (current_rows df)"
  by (induction "rows df") (auto simp add: current_rows_def drop_zone_def conj_commute)

lemma baseline_rows_drop_zone:
  "baseline_rows (drop_zone z df) = filter (\<lambda>r. r ''zone'' \<noteq> z) (baseline_rows df)"
  by (induction "rows df") (auto simp add: baseline_rows_def drop_zone_def conj_commute)

lemma zone_rows_drop_other:
  "z' \<noteq> z \<Longrightarrow> zone_rows z' (filter (\<lambda>r. r ''zone'' \<noteq> z) rs) = zone_rows z' rs"
  by (induction rs) (auto simp add: zone_rows_def cell_eq_def)

lemma numeric_columns_drop_zone: "numeric_columns (drop_zone z df) = numeric_columns df"
  by (simp add: numeric_columns_def drop_zone_def)

lemma zone_deviations_drop_other:
  "z' \<noteq> z \<Longrightarrow> zone_deviations sm (drop_zone z df) z' = zone_deviations sm df z'"
  by (simp add: zone_deviations_def current_rows_drop_zone baseline_rows_drop_zone
        zone_rows_drop_other numeric_columns_drop_zone Let_def)

lemma zone_deviations_gap:
  "List.null (zone_rows z (current_rows df)) \<or> List.null (zone_rows z (baseline_rows df))
     \<Longrightarrow> zone_deviations sm df z = []"
  by (auto simp add: zone_deviations_def Let_def)

lemma concat_map_filter_empty:
  "(\<And>x. x \<in> set xs \<Longrightarrow> \<not> P x \<Longrightarrow> f x = []) \<Longrightarrow>
     concat (map f (filter P xs)) = concat (map f xs)"
  by (induction xs) auto

text \<open>
  C8.  When the indicator column is text (the calculator raises nothing else), a zone whose
  current rows or whose baseline rows are empty is skipped without an error: the
  calculator returns its records, none of them is of that zone, and they are the records
  it returns for the table without the rows of that zone, so the other zones are
  unaffected.
\<close>

theorem gap_zone_skipped:
  assumes "list_all (\<lambda>r. is_text (r ''indicator'')) (rows df)"
    and "List.null (zone_rows z (current_rows df)) \<or> List.null (zone_rows z (baseline_rows df))"
  shows "\<exists>devs. compute_deviations sm df = Inr devs
           \<and> (\<forall>d \<in> set devs. d_zone d \<noteq> z)
           \<and> compute_deviations sm (drop_zone z df) = Inr devs"
proof -
  let ?zones = "unique (map (\<lambda>r. r ''zone'') (rows df))"
  let ?devs = "concat (map (zone_deviations sm df) ?zones)"
  have run: "compute_deviations sm df = Inr ?devs"
    using assms(1) by (simp add: compute_deviations_def)
  have none: "d_zone d \<noteq> z" if "d \<in> set ?devs" for d
  proof
    assume "d_zone d = z"
    with compute_deviations_member(2,3) [OF run that] assms(2) show False by simp
  qed
  have text': "list_all (\<lambda>r. is_text (r ''indicator'')) (rows (drop_zone z df))"
    using assms(1) by (simp add: drop_zone_def list_all_iff)
  have zones': "unique (map (\<lambda>r. r ''zone'') (rows (drop_zone z df)))
                  = filter (\<lambda>c. c \<noteq> z) ?zones"
    by (simp add: drop_zone_def zones_drop_zone unique_filter)
  have "concat (map (zone_deviations sm (drop_zone z df)) (filter (\<lambda>c. c \<noteq> z) ?zones))
          = concat (map (zone_deviations sm df) (filter (\<lambda>c. c \<noteq> z) ?zones))"
    by (rule arg_cong [where f = concat], rule map_cong) (simp_all add: zone_deviations_drop_other)
  also have "\<dots> = ?devs"
    by (rule concat_map_filter_empty) (simp add: zone_deviations_gap [OF assms(2)])
  finally have "compute_deviations sm (drop_zone z df) = Inr ?devs"
    using text' zones' by (simp add: compute_deviations_def)
  with run none show ?thesis by blast
qed

theorem gap_zone_skipped_witness:
  "list_all (\<lambda>r. is_text (r ''indicator'')) (rows gap_table)
   \<and> List.null (zone_rows (Str ''Ihefu Core'') (baseline_rows gap_table))
   \<and> Str ''Ihefu Core'' \<in> set (map (\<lambda>r. r ''zone'') (rows gap_table))
   \<and> compute_deviations mean gap_table = Inr [usangu_deviation]
   \<and> compute_deviations mean (drop_zone (Str ''Ihefu Core'') gap_table) = Inr [usangu_deviation]"
proof -
  have h1: "list_all (\<lambda>r. is_text (r ''indicator'')) (rows gap_table)" by code_simp
  have h2: "List.null (zone_rows (Str ''Ihefu Core'') (baseline_rows gap_table))" by code_simp
  have h3: "Str ''Ihefu Core'' \<in> set (map (\<lambda>r. r ''zone'') (rows gap_table))" by code_simp
  have h4: "compute_deviations mean gap_table = Inr [usangu_deviation]" by code_simp
  from gap_zone_skipped [where sm = mean, OF h1 disjI2 [OF h2]] h4
  have "compute_deviations mean (drop_zone (Str ''Ihefu Core'') gap_table) = Inr [usangu_deviation]"
    by auto
  with h1 h2 h3 h4 show ?thesis by blast
qed

subsection \<open>Loader and compiler\<close>

lemma load_gee_export_missing:
  "required_cols - set (column_names raw) \<noteq> {} \<Longrightarrow>
     load_gee_export ord raw = Inl (MissingRequiredColumns (ord (required_cols - set (column_names raw))))"
  by (simp add: load_gee_export_def Let_def)

lemma load_loop_fails:
  "(key, filename) \<in> set ps \<Longrightarrow> fs filename = Some raw \<Longrightarrow> isl (load_gee_export ord raw)
     \<Longrightarrow> isl (load_loop ord fs ps ds lg)"
proof (induction ps arbitrary: ds lg)
  case Nil
  then show ?case by simp
next
  case (Cons p ps)
  obtain k f where p: "p = (k, f)" by (cases p)
  show ?case
  proof (cases "fs f")
    case None
    with Cons p show ?thesis by auto
  next
    case (Some raw')
    show ?thesis
    proof (cases "load_gee_export ord raw'")
      case (Inl e)
      with Some p show ?thesis by simp
    next
      case (Inr df)
      with Some p Cons show ?thesis by auto
    qed
  qed
qed


lemma compile_load_error:
  "load_monthly_exports ord fs year month = Inl e \<Longrightarrow>
     compile_monthly_dataset sm ord th fs now_quality now_output year month = Inl e"
  by (simp add: compile_monthly_dataset_def)

text \<open>
  C3, as the code has it.  A present category file that lacks a required column fails to
  load with the error that names the missing columns, and nothing catches it: the load
  of the period raises, and the whole compilation run raises the same error, whether or
  not other categories load.
\<close>

theorem schema_error_aborts_run:
  assumes "(key, filename) \<in> set (patterns year month)"
    and "fs filename = Some raw"
    and "required_cols - set (column_names raw) \<noteq> {}"
  shows "load_gee_export ord raw = Inl (MissingRequiredColumns (ord (required_cols - set (column_names raw))))
       \<and> (\<exists>e. load_monthly_exports ord fs year month = Inl e
               \<and> compile_monthly_dataset sm ord th fs now_quality now_output year month = Inl e)"
proof -
  have l: "load_gee_export ord raw
             = Inl (MissingRequiredColumns (ord (required_cols - set (column_names raw))))"
    using assms(3) by (rule load_gee_export_missing)
  then have "isl (load_gee_export ord raw)" by simp
  then have "isl (load_monthly_exports ord fs year month)"
    unfolding load_monthly_exports_def using assms(1,2) load_loop_fails by blast
  then obtain e where "load_monthly_exports ord fs year month = Inl e"
    by (cases "load_monthly_exports ord fs year month") simp_all
  with l compile_load_error show ?thesis by blast
qed

theorem schema_error_aborts_run_witness:
  "(''fire'', ''fire_burn_2024_01.csv'') \<in> set (patterns 2024 1)
   \<and> exports_bad_fire ''fire_burn_2024_01.csv'' = Some no_zone_table
   \<and> required_cols - set (column_names no_zone_table) \<noteq> {}
   \<and> load_gee_export zone_order no_zone_table = Inl (MissingRequiredColumns [''zone''])
   \<and> isl (compile_monthly_dataset mean zone_order example_thresholds exports_bad_fire ''t1'' ''t2'' 2024 1)"
proof -
  have h1: "(''fire'', ''fire_burn_2024_01.csv'') \<in> set (patterns 2024 1)" by code_simp
  have h2: "exports_bad_fire ''fire_burn_2024_01.csv'' = Some no_zone_table"
    by (simp add: exports_bad_fire_def)
  have h3: "required_cols - set (column_names no_zone_table) \<noteq> {}" by code_simp
  have h4: "zone_order (required_cols - set (column_names no_zone_table)) = [''zone'']"
    by code_simp
  from schema_error_aborts_run
         [where fs = exports_bad_fire and th = example_thresholds and now_quality = "''t1''"
            and now_output = "''t2''" and sm = mean and ord = zone_order, OF h1 h2 h3]
  have "load_gee_export zone_order no_zone_table = Inl (MissingRequiredColumns [''zone''])"
    and "isl (compile_monthly_dataset mean zone_order example_thresholds exports_bad_fire ''t1'' ''t2'' 2024 1)"
    unfolding h4 by auto
  with h1 h2 h3 show ?thesis by blast
qed

text \<open>
  The claim C3 as it is written fails: with a vegetation export that loads and a fire
  export that lacks the zone column, the run raises the error instead of completing.
\<close>

theorem schema_error_fatal_despite_loaded_category:
  "exports_bad_fire ''ndvi_evi_2024_01.csv'' = Some gap_table
   \<and> \<not> isl (load_gee_export zone_order gap_table)
   \<and> (case compile_monthly_dataset mean zone_order example_thresholds exports_bad_fire ''t1'' ''t2'' 2024 1 of
         Inl e \<Rightarrow> e = MissingRequiredColumns [''zone'']
       | Inr out \<Rightarrow> False)"
proof -
  have "exports_bad_fire ''ndvi_evi_2024_01.csv'' = Some gap_table"
    by (simp add: exports_bad_fire_def)
  moreover have "\<not> isl (load_gee_export zone_order gap_table)"
    by code_simp
  moreover have
    "(case compile_monthly_dataset mean zone_order example_thresholds exports_bad_fire ''t1'' ''t2'' 2024 1 of
        Inl e \<Rightarrow> e = MissingRequiredColumns [''zone'']
      | Inr out \<Rightarrow> False)"
    by code_simp
  ultimately show ?thesis by blast
qed











subsection \<open>Repeated runs\<close>

lemma listing_order_valid:
  "distinct zs \<Longrightarrow> S \<subseteq> set zs \<Longrightarrow> set (listing_order zs S) = S \<and> distinct (listing_order zs S)"
  by (auto simp add: listing_order_def)

lemma printed_names_cover:
  "distinct printed_names" "required_cols \<subseteq> set printed_names"
  "set (map snd ZONE_NAMES) \<subseteq> set printed_names"
  by (simp_all add: printed_names_def required_cols_def ZONE_NAMES_def)

lemma valid_zone_order: "valid_set_order zone_order"
  unfolding valid_set_order_def zone_order_def
  using listing_order_valid [OF printed_names_cover(1)] printed_names_cover(2,3)
  by (meson subset_trans)

lemma valid_zone_order_rev: "valid_set_order zone_order_rev"
proof -
  have d: "distinct (rev printed_names)" using printed_names_cover(1) by simp
  show ?thesis
    unfolding valid_set_order_def zone_order_rev_def
    using listing_order_valid [OF d] printed_names_cover(2,3)
    by (metis set_rev subset_trans)
qed

lemma valid_set_order_mset:
  assumes "valid_set_order ord1" and "valid_set_order ord2"
    and "S \<subseteq> required_cols \<or> S \<subseteq> set (map snd ZONE_NAMES)"
  shows "mset (ord1 S) = mset (ord2 S)"
proof -
  from assms(1,3) have a: "set (ord1 S) = S" "distinct (ord1 S)"
    unfolding valid_set_order_def by blast+
  from assms(2,3) have b: "set (ord2 S) = S" "distinct (ord2 S)"
    unfolding valid_set_order_def by blast+
  from a b show ?thesis
    using set_eq_iff_mset_eq_distinct [of "ord1 S" "ord2 S"] by simp
qed

lemma load_gee_export_view:
  assumes "valid_set_order ord1" and "valid_set_order ord2"
  shows "map_sum error_view id (load_gee_export ord1 df)
           = map_sum error_view id (load_gee_export ord2 df)"
proof -
  have "mset (ord1 (required_cols - set (column_names df)))
          = mset (ord2 (required_cols - set (column_names df)))"
    using valid_set_order_mset [OF assms] by blast
  then show ?thesis
    by (simp add: load_gee_export_def Let_def error_view_def)
qed

lemma load_loop_view:
  assumes "valid_set_order ord1" and "valid_set_order ord2"
  shows "map_sum error_view id (load_loop ord1 fs ps ds lg)
           = map_sum error_view id (load_loop ord2 fs ps ds lg)"
proof (induction ps arbitrary: ds lg)
  case Nil
  then show ?case by simp
next
  case (Cons p ps)
  obtain k f where p: "p = (k, f)" by (cases p)
  show ?case
  proof (cases "fs f")
    case None
    then show ?thesis using Cons.IH by (simp add: p)
  next
    case (Some raw)
    note v = load_gee_export_view [OF assms, of raw]
    show ?thesis
    proof (cases "load_gee_export ord1 raw")
      case (Inl e1)
      with v obtain e2 where "load_gee_export ord2 raw = Inl e2" "error_view e1 = error_view e2"
        by (cases "load_gee_export ord2 raw") simp_all
      with Inl Some show ?thesis by (simp add: p)
    next
      case (Inr df)
      with v have "load_gee_export ord2 raw = Inr df"
        by (cases "load_gee_export ord2 raw") simp_all
      with Inr Some show ?thesis using Cons.IH by (simp add: p)
    qed
  qed
qed

lemma missing_zones_subset: "missing_zones_of chk \<subseteq> set (map snd ZONE_NAMES)"
  by (auto simp add: missing_zones_of_def Let_def)

lemma flag_missing_zones_view:
  assumes "valid_set_order ord1" and "valid_set_order ord2"
  shows "check_view (flag_missing_zones ord1 chk) = check_view (flag_missing_zones ord2 chk)"
proof -
  have "mset (ord1 (missing_zones_of chk)) = mset (ord2 (missing_zones_of chk))"
    using valid_set_order_mset [OF assms] missing_zones_subset by blast
  then show ?thesis
    by (simp add: flag_missing_zones_def Let_def check_view_def note_view_def)
qed

lemma quality_check_view:
  assumes "valid_set_order ord1" and "valid_set_order ord2"
  shows "check_view (quality_check ord1 key df) = check_view (quality_check ord2 key df)"
  unfolding quality_check_def by (rule flag_missing_zones_view [OF assms])

lemma check_view_status: "check_view a = check_view b \<Longrightarrow> status a = status b"
  by (simp add: check_view_def)

lemma validate_loop_view:
  assumes "valid_set_order ord1" and "valid_set_order ord2"
  shows "quality_view qa = quality_view qb \<Longrightarrow>
           quality_view (validate_loop ord1 ds qa) = quality_view (validate_loop ord2 ds qb)"
proof (induction ds arbitrary: qa qb)
  case Nil
  then show ?case by simp
next
  case (Cons p ds)
  obtain key df where p: "p = (key, df)" by (cases p)
  note v = quality_check_view [OF assms, of key df]
  note st = check_view_status [OF v]
  let ?a = "qa\<lparr>checks := checks qa @ [quality_check ord1 key df]\<rparr>"
  let ?b = "qb\<lparr>checks := checks qb @ [quality_check ord2 key df]\<rparr>"
  have e: "quality_view ?a = quality_view ?b"
    using Cons.prems v by (simp add: quality_view_def)
  then have e': "quality_view (?a\<lparr>overall_status := WARNING\<rparr>)
                 = quality_view (?b\<lparr>overall_status := WARNING\<rparr>)"
    by (simp add: quality_view_def)
  show ?case
  proof (cases "status (quality_check ord1 key df) = PASS")
    case True
    with st have "status (quality_check ord2 key df) = PASS" by simp
    with True show ?thesis using Cons.IH [OF e] by (simp add: p Let_def)
  next
    case False
    with st have "status (quality_check ord2 key df) \<noteq> PASS" by simp
    with False show ?thesis using Cons.IH [OF e'] by (simp add: p Let_def)
  qed
qed

lemma validate_data_quality_view:
  assumes "valid_set_order ord1" and "valid_set_order ord2"
  shows "quality_view (validate_data_quality ord1 now1 ds)
           = quality_view (validate_data_quality ord2 now2 ds)"
  unfolding validate_data_quality_def
  by (rule validate_loop_view [OF assms]) (simp add: quality_view_def)

lemma compile_loaded_view:
  assumes "valid_set_order ord1" and "valid_set_order ord2"
    and "load_monthly_exports ord1 fs year month = Inr (ds, lg)"
    and "load_monthly_exports ord2 fs year month = Inr (ds, lg)"
  shows "run_view (compile_monthly_dataset sm ord1 th fs q1 o1 year month)
           = run_view (compile_monthly_dataset sm ord2 th fs q2 o2 year month)"
  using assms(3,4) validate_data_quality_view [OF assms(1,2), of q1 ds q2]
  by (simp add: compile_monthly_dataset_def run_view_def outcome_view_def document_view_def
        Let_def split: sum.splits)

text \<open>
  C2, as the code has it.  Take two runs for the same period, on the same exports, with
  the same thresholds and the same library mean; each run reads the clock for itself and
  prints sets in the order of its own process.  Either both raise, the same error up to
  the order in which the missing columns are listed, or both return: then they log the
  same records, and the documents they return and write (to the same path) agree in
  every field except \<open>generated_at\<close>, the \<open>timestamp\<close> of the data-quality report, and the
  order in which a note of that report lists the missing zones.
\<close>

theorem recompile_equal_up_to_clock_and_set_order:
  assumes "valid_set_order ord1" and "valid_set_order ord2"
  shows "run_view (compile_monthly_dataset sm ord1 th fs q1 o1 year month)
           = run_view (compile_monthly_dataset sm ord2 th fs q2 o2 year month)"
proof -
  have v: "map_sum error_view id (load_monthly_exports ord1 fs year month)
           = map_sum error_view id (load_monthly_exports ord2 fs year month)"
    unfolding load_monthly_exports_def by (rule load_loop_view [OF assms])
  show ?thesis
  proof (cases "load_monthly_exports ord1 fs year month")
    case (Inl e1)
    with v obtain e2 where "load_monthly_exports ord2 fs year month = Inl e2"
      "error_view e1 = error_view e2"
      by (cases "load_monthly_exports ord2 fs year month") simp_all
    with Inl show ?thesis by (simp add: compile_monthly_dataset_def run_view_def)
  next
    case (Inr r)
    obtain ds lg where r: "r = (ds, lg)" by (cases r)
    from v Inr have "load_monthly_exports ord2 fs year month = Inr (ds, lg)"
      by (cases "load_monthly_exports ord2 fs year month") (simp_all add: r)
    with Inr r show ?thesis using compile_loaded_view [OF assms] by simp
  qed
qed

theorem recompile_equal_up_to_clock_and_set_order_witness:
  "valid_set_order zone_order \<and> valid_set_order zone_order_rev
   \<and> run_view (compile_monthly_dataset mean zone_order example_thresholds exports_two
                 ''2024-02-01T06:00:00+00:00'' ''2024-02-01T06:00:01+00:00'' 2024 1)
       = run_view (compile_monthly_dataset mean zone_order_rev example_thresholds exports_two
                     ''2024-02-01T07:00:00+00:00'' ''2024-02-01T07:00:01+00:00'' 2024 1)
   \<and> returned_notes (compile_monthly_dataset mean zone_order example_thresholds exports_two
                        ''2024-02-01T06:00:00+00:00'' ''2024-02-01T06:00:01+00:00'' 2024 1)
       = [Some (MissingZones [''Nyerere NP'']),
          Some (MissingZones [''Usangu GR'', ''Ihefu Core''])]
   \<and> returned_notes (compile_monthly_dataset mean zone_order_rev example_thresholds exports_two
                        ''2024-02-01T07:00:00+00:00'' ''2024-02-01T07:00:01+00:00'' 2024 1)
       = [Some (MissingZones [''Nyerere NP'']),
          Some (MissingZones [''Ihefu Core'', ''Usangu GR''])]"
proof -
  have h1: "valid_set_order zone_order" by (rule valid_zone_order)
  have h2: "valid_set_order zone_order_rev" by (rule valid_zone_order_rev)
  have n1: "returned_notes (compile_monthly_dataset mean zone_order example_thresholds
                              exports_two ''2024-02-01T06:00:00+00:00''
                              ''2024-02-01T06:00:01+00:00'' 2024 1)
              = [Some (MissingZones [''Nyerere NP'']),
                 Some (MissingZones [''Usangu GR'', ''Ihefu Core''])]"
    by code_simp
  have n2: "returned_notes (compile_monthly_dataset mean zone_order_rev example_thresholds
                              exports_two ''2024-02-01T07:00:00+00:00''
                              ''2024-02-01T07:00:01+00:00'' 2024 1)
              = [Some (MissingZones [''Nyerere NP'']),
                 Some (MissingZones [''Ihefu Core'', ''Usangu GR''])]"
    by code_simp
  show ?thesis
    using recompile_equal_up_to_clock_and_set_order
            [where sm = mean and th = example_thresholds and fs = exports_two
               and ?q1.0 = "''2024-02-01T06:00:00+00:00''"
               and ?o1.0 = "''2024-02-01T06:00:01+00:00''"
               and ?q2.0 = "''2024-02-01T07:00:00+00:00''"
               and ?o2.0 = "''2024-02-01T07:00:01+00:00''"
               and year = 2024 and month = 1, OF h1 h2]
      h1 h2 n1 n2
    by blast
qed

text \<open>
  The claim C2 as it is written fails, twice.  Two runs on the same exports differ in
  the \<open>timestamp\<close> of the data-quality report, even with the same \<open>generated_at\<close> and the
  same print order; and with the same clock readings, two processes that print sets in
  different orders write different notes for the fire export, from which two zones are
  missing.
\<close>

theorem quality_timestamp_differs_between_runs:
  "(case (compile_monthly_dataset mean zone_order example_thresholds exports_two
            ''2024-02-01T06:00:00+00:00'' ''2024-02-01T06:00:01+00:00'' 2024 1,
          compile_monthly_dataset mean zone_order example_thresholds exports_two
            ''2024-02-01T07:00:00+00:00'' ''2024-02-01T06:00:01+00:00'' 2024 1) of
      (Inr a, Inr b) \<Rightarrow>
        (case (returned a, returned b) of
           (Some d1, Some d2) \<Rightarrow>
             generated_at (doc_metadata d1) = generated_at (doc_metadata d2)
             \<and> timestamp (data_quality d1) \<noteq> timestamp (data_quality d2)
         | _ \<Rightarrow> False)
    | _ \<Rightarrow> False)
   \<and> (case (compile_monthly_dataset mean zone_order example_thresholds exports_two
               ''2024-02-01T06:00:00+00:00'' ''2024-02-01T06:00:01+00:00'' 2024 1,
             compile_monthly_dataset mean zone_order_rev example_thresholds exports_two
               ''2024-02-01T06:00:00+00:00'' ''2024-02-01T06:00:01+00:00'' 2024 1) of
         (Inr a, Inr b) \<Rightarrow>
           (case (returned a, returned b) of
              (Some d1, Some d2) \<Rightarrow>
                generated_at (doc_metadata d1) = generated_at (doc_metadata d2)
                \<and> timestamp (data_quality d1) = timestamp (data_quality d2)
                \<and> map chk_note (checks (data_quality d1))
                    \<noteq> map chk_note (checks (data_quality d2))
            | _ \<Rightarrow> False)
       | _ \<Rightarrow> False)"
  by code_simp

end
